theory Spec2Isabelle
  imports Main
begin

section \<open>Offset calculator\<close>

text \<open>
  The reminder cog of the bot (\<^verbatim>\<open>cogs/reminders.py\<close>) computes, for a deadline with
  due instant \<open>due_utc\<close> created at \<open>now_utc\<close> (both epoch seconds, Python integers),
  the lead-time offsets of its reminders. Python integers are unbounded, so they are
  modelled as \<open>int\<close>.
\<close>

subsection \<open>\<^verbatim>\<open>default_offsets\<close>\<close>

definition default_offsets :: "int \<Rightarrow> int \<Rightarrow> int list" where
  "default_offsets now_utc due_utc =
     (let lead = due_utc - now_utc;
          day = 86400;
          hour = 3600
      in if lead \<ge> 3 * day then [3 * day, 2 * day, day]
         else if 2 * day \<le> lead \<and> lead < 3 * day then [day]
         else if 12 * hour \<le> lead \<and> lead < 2 * day then [4 * hour]
         else if 4 * hour \<le> lead \<and> lead < 12 * hour then [2 * hour]
         else if hour \<le> lead \<and> lead < 4 * hour then [hour]
         else if 30 * 60 \<le> lead \<and> lead < hour then [30 * 60]
         else (if lead > 10 * 60 then [10 * 60] else [max (lead - 60) 60]))"

subsection \<open>Strings\<close>

text \<open>
  A Python \<^verbatim>\<open>str\<close> is modelled as a \<open>string\<close> whose characters are the code points
  below 256. On these, \<^verbatim>\<open>str.strip\<close> and the regular expression class \<^verbatim>\<open>\s\<close> agree
  (both use the interpreter's whitespace test), \<^verbatim>\<open>\d\<close> is the ten ASCII digits, and
  the case-insensitive class \<^verbatim>\<open>[smhdw]\<close> is those five letters in either case.
\<close>

definition isspace :: "char \<Rightarrow> bool" where
  "isspace c = (of_char c \<in> {9, 10, 11, 12, 13, 28, 29, 30, 31, 32, 133, 160 :: nat})"

definition isdigit :: "char \<Rightarrow> bool" where
  "isdigit c = (48 \<le> (of_char c :: nat) \<and> (of_char c :: nat) \<le> 57)"

definition strip :: "string \<Rightarrow> string" where
  "strip s = rev (dropWhile isspace (rev (dropWhile isspace s)))"

definition lower_char :: "char \<Rightarrow> char" where
  "lower_char c =
     (let n = (of_char c :: nat) in
      if (65 \<le> n \<and> n \<le> 90) \<or> (192 \<le> n \<and> n \<le> 222 \<and> n \<noteq> 215) then char_of (n + 32) else c)"

text \<open>\<^verbatim>\<open>str.split(sep)\<close> for a separator of one character.\<close>

fun split_on :: "char \<Rightarrow> string \<Rightarrow> string list" where
  "split_on sep [] = [[]]"
| "split_on sep (c # cs) =
     (if c = sep then [] # split_on sep cs
      else (case split_on sep cs of [] \<Rightarrow> [[c]] | t # ts \<Rightarrow> (c # t) # ts))"

definition int_of_digits :: "string \<Rightarrow> int" where
  "int_of_digits ds = foldl (\<lambda>acc d. 10 * acc + (int (of_char d) - 48)) 0 ds"

subsection \<open>\<^verbatim>\<open>parse_offset_str\<close>\<close>

datatype error = ValueError string | KeyError string

definition is_unit :: "char \<Rightarrow> bool" where
  "is_unit c = (c \<in> set ''smhdwSMHDW'')"

text \<open>
  \<^verbatim>\<open>DURATION_RE.match(p)\<close> for the pattern \<^verbatim>\<open>^\s*(\d+)\s*([smhdw])\s*$\<close> with
  \<^verbatim>\<open>re.IGNORECASE\<close>: the two groups on a match, \<open>None\<close> otherwise. The classes are
  disjoint, so the greedy match is the only one.
\<close>

definition DURATION_RE_match :: "string \<Rightarrow> (string \<times> char) option" where
  "DURATION_RE_match p =
     (let s1 = dropWhile isspace p;
          ds = takeWhile isdigit s1;
          s2 = dropWhile isspace (dropWhile isdigit s1)
      in if ds = [] then None
         else (case s2 of
                 [] \<Rightarrow> None
               | u # rest \<Rightarrow>
                   if is_unit u \<and> dropWhile isspace rest = [] then Some (ds, u) else None))"

definition unit_mult :: "char \<Rightarrow> int option" where
  "unit_mult =
     [CHR ''s'' \<mapsto> 1, CHR ''m'' \<mapsto> 60, CHR ''h'' \<mapsto> 3600, CHR ''d'' \<mapsto> 86400, CHR ''w'' \<mapsto> 604800]"

text \<open>The loop of \<^verbatim>\<open>parse_offset_str\<close> over the comma-separated parts, with the list \<open>out\<close>.\<close>

fun parse_parts :: "string list \<Rightarrow> int list \<Rightarrow> error + int list" where
  "parse_parts [] out = Inr out"
| "parse_parts (part # parts) out =
     (let p = strip part in
      if p = [] then parse_parts parts out
      else (case DURATION_RE_match p of
              None \<Rightarrow> Inl (ValueError (''Invalid duration: '' @ p @ '' (use s,m,h,d,w)''))
            | Some (ds, u) \<Rightarrow>
                (let val = int_of_digits ds; unit = lower_char u in
                 case unit_mult unit of
                   None \<Rightarrow> Inl (KeyError [unit])
                 | Some mult \<Rightarrow> parse_parts parts (out @ [val * mult]))))"

definition parse_offset_str :: "string \<Rightarrow> error + int list" where
  "parse_offset_str offset_str =
     (case parse_parts (split_on CHR '','' offset_str) [] of
        Inl e \<Rightarrow> Inl e
      | Inr out \<Rightarrow> Inr (rev (sort (remdups out))))"

subsection \<open>The grammar of a duration token\<close>





section \<open>Trigger store\<close>

text \<open>
  The tables of \<^verbatim>\<open>db.py\<close> that the reminder cog uses. A table is the list of its rows in
  insertion order. \<open>projects_seq\<close> and \<open>reminders_seq\<close> are the \<^verbatim>\<open>AUTOINCREMENT\<close>
  counters: a new row gets the counter plus one. The state is what the single connection
  of \<^verbatim>\<open>Database\<close> sees, so rows written by a statement are there whether or not
  \<^verbatim>\<open>commit\<close> has been reached.
\<close>

record project =
  p_id :: int
  guild_id :: int
  name :: string
  description :: "string option"
  due_ts :: int
  tz :: string
  role_id :: int
  channel_id :: int
  created_by :: int
  created_at :: int

record reminder =
  r_id :: int
  project_id :: int
  remind_ts :: int
  sent :: int
  custom :: int
  message :: "string option"

record config =
  timezone :: "string option"
  announcer_user_id :: "int option"
  announce_role_id :: "int option"
  announce_channel_id :: "int option"
  deadlines_channel_id :: "int option"
  deadlines_digest_time :: "string option"

record database =
  projects :: "project list"
  projects_seq :: int
  reminders :: "reminder list"
  reminders_seq :: int
  configs :: "int \<rightharpoonup> config"

datatype db_error = DatabaseError | IntegrityError

text \<open>
  \<^verbatim>\<open>Database.execute\<close> with the \<^verbatim>\<open>INSERT INTO projects\<close> of \<^verbatim>\<open>project_create\<close>. Whether
  SQLite raises is not decided by the program (a locked or full database); \<open>ok\<close> is that
  outcome. The column \<^verbatim>\<open>tz\<close> is \<^verbatim>\<open>NOT NULL\<close>. On success the result is \<^verbatim>\<open>lastrowid\<close>.
\<close>

definition insert_project ::
  "bool \<Rightarrow> int \<Rightarrow> string \<Rightarrow> string \<Rightarrow> int \<Rightarrow> string option \<Rightarrow> int \<Rightarrow> int \<Rightarrow> int \<Rightarrow> int
     \<Rightarrow> database \<Rightarrow> database \<times> (db_error + int)" where
  "insert_project ok g nm descr due tzs role chan usr created db =
     (if \<not> ok then (db, Inl DatabaseError)
      else (case tzs of
              None \<Rightarrow> (db, Inl IntegrityError)
            | Some t \<Rightarrow>
                (let i = projects_seq db + 1;
                     row = \<lparr>p_id = i, guild_id = g, name = nm, description = Some descr,
                            due_ts = due, tz = t, role_id = role, channel_id = chan,
                            created_by = usr, created_at = created\<rparr>
                 in (db\<lparr>projects := projects db @ [row], projects_seq := i\<rparr>, Inr i))))"

text \<open>One \<^verbatim>\<open>INSERT INTO reminders\<close> row, as both commands write it.\<close>

definition insert_reminder :: "int \<Rightarrow> int \<Rightarrow> int \<Rightarrow> int \<Rightarrow> string option \<Rightarrow> database \<Rightarrow> database" where
  "insert_reminder pid ts snt cust msg db =
     (let i = reminders_seq db + 1;
          row = \<lparr>r_id = i, project_id = pid, remind_ts = ts, sent = snt, custom = cust,
                 message = msg\<rparr>
      in db\<lparr>reminders := reminders db @ [row], reminders_seq := i\<rparr>)"

text \<open>
  \<^verbatim>\<open>Database.executemany\<close> with the \<^verbatim>\<open>INSERT INTO reminders\<close> of \<^verbatim>\<open>project_create\<close>.
  \<open>fail_at = Some k\<close> says that SQLite raises at the row of index \<open>k\<close>; the rows before
  it have been written by then, and \<^verbatim>\<open>commit\<close> is not reached.
\<close>

fun executemany_reminders ::
  "nat option \<Rightarrow> (int \<times> int \<times> int \<times> int \<times> string option) list \<Rightarrow> database
     \<Rightarrow> database \<times> (db_error + unit)" where
  "executemany_reminders fail_at [] db = (db, Inr ())"
| "executemany_reminders fail_at ((pid, ts, snt, cust, msg) # rows) db =
     (if fail_at = Some 0 then (db, Inl DatabaseError)
      else executemany_reminders (map_option (\<lambda>k. k - 1) fail_at) rows
             (insert_reminder pid ts snt cust msg db))"


definition get_config :: "database \<Rightarrow> int \<Rightarrow> config option" where
  "get_config db g = configs db g"

section \<open>Timezones\<close>

text \<open>
  \<^verbatim>\<open>parse_timezone\<close> returns a \<^verbatim>\<open>tzinfo\<close>: \<^verbatim>\<open>timezone.utc\<close> or a \<^verbatim>\<open>ZoneInfo\<close>. Which names
  the \<^verbatim>\<open>ZoneInfo\<close> constructor resolves depends on the installed zone data; \<open>resolves\<close>
  is that table. On the strings compared, \<^verbatim>\<open>str.upper\<close> equals \<^verbatim>\<open>"UTC"\<close> or \<^verbatim>\<open>"Z"\<close>
  exactly when the ASCII upper-casing below does.
\<close>

datatype tzinfo = Utc | ZoneInfo string

definition upper_char :: "char \<Rightarrow> char" where
  "upper_char c =
     (let n = (of_char c :: nat) in if 97 \<le> n \<and> n \<le> 122 then char_of (n - 32) else c)"

definition parse_timezone :: "(string \<Rightarrow> bool) \<Rightarrow> string option \<Rightarrow> tzinfo" where
  "parse_timezone resolves tz_name =
     (let nm = strip (case tz_name of None \<Rightarrow> ''UTC'' | Some t \<Rightarrow> if t = [] then ''UTC'' else t)
      in if map upper_char nm = ''UTC'' \<or> map upper_char nm = ''Z'' then Utc
         else if resolves nm then ZoneInfo nm
         else Utc)"

section \<open>Creating a deadline\<close>

text \<open>Lines 133 to 140 of \<^verbatim>\<open>project_create\<close>: the offsets, explicit or default.\<close>

definition compute_offsets :: "string option \<Rightarrow> int \<Rightarrow> int \<Rightarrow> error + int list" where
  "compute_offsets custom_offsets now_utc due_utc =
     (case custom_offsets of
        None \<Rightarrow> Inr (default_offsets now_utc due_utc)
      | Some s \<Rightarrow> if s = [] then Inr (default_offsets now_utc due_utc) else parse_offset_str s)"

text \<open>Lines 142 to 152: the reminder instants, with the five-minute fallback.\<close>

definition reminder_timestamps :: "int \<Rightarrow> int \<Rightarrow> int list \<Rightarrow> int list" where
  "reminder_timestamps now_utc due_utc offsets =
     (let reminder_ts = filter (\<lambda>ts. ts > now_utc + 30) (map (\<lambda>off. due_utc - off) offsets)
      in if reminder_ts = []
         then (let fallback = max (due_utc - 300) (now_utc + 60)
               in if fallback < due_utc then reminder_ts @ [fallback] else reminder_ts)
         else reminder_ts)"

text \<open>
  The replies of the commands. \<open>Offset_error\<close> carries the text of the \<^verbatim>\<open>ValueError\<close>
  that the command catches and shows; an exception it does not catch leaves the command
  (\<open>Command_raised\<close>, \<open>Store_raised\<close>).
\<close>

datatype reply =
  Server_only
| Invalid_due_format
| Due_too_soon
| Offset_error string
| Command_raised error
| Project_created int "int list"
| Project_not_found
| No_valid_reminders
| Reminders_added "int list"
| Invalid_time_format
| Digest_configured
| Store_raised db_error

text \<open>
  The request of \<^verbatim>\<open>/project create\<close>, and what the command reads from outside the
  program: the clock (\<open>now_utc\<close> for \<^verbatim>\<open>datetime.now\<close>, \<open>created\<close> for \<^verbatim>\<open>time.time\<close>), the
  zone table, the calendar conversion of \<^verbatim>\<open>strptime(due, ...).replace(tzinfo=...)\<close> to
  epoch seconds (\<open>None\<close> when it raises \<^verbatim>\<open>ValueError\<close>), and the outcomes of the two
  store statements.
\<close>

record create_request =
  cr_guild_id :: "int option"
  cr_name :: string
  cr_due :: string
  cr_role :: int
  cr_channel :: int
  cr_description :: "string option"
  cr_timezone :: "string option"
  cr_custom_offsets :: "string option"
  cr_user :: int

record create_env =
  ce_now_utc :: int
  ce_created :: int
  ce_resolves :: "string \<Rightarrow> bool"
  ce_strptime :: "tzinfo \<Rightarrow> string \<Rightarrow> int option"
  ce_project_ok :: bool
  ce_reminders_fail_at :: "nat option"

definition truthy :: "string option \<Rightarrow> bool" where
  "truthy s = (case s of None \<Rightarrow> False | Some t \<Rightarrow> t \<noteq> [])"

text \<open>
  Lines 116 to 118: the zone name, from the request, else from the configuration of the
  guild, else \<^verbatim>\<open>"UTC"\<close>. The column \<^verbatim>\<open>config.timezone\<close> may hold \<^verbatim>\<open>NULL\<close>.
\<close>

definition resolve_tz :: "create_request \<Rightarrow> database \<Rightarrow> int \<Rightarrow> string option" where
  "resolve_tz req db g =
     (if truthy (cr_timezone req) then cr_timezone req
      else (case get_config db g of None \<Rightarrow> Some ''UTC'' | Some cfg \<Rightarrow> timezone cfg))"

definition project_create :: "create_env \<Rightarrow> create_request \<Rightarrow> database \<Rightarrow> database \<times> reply" where
  "project_create env req db =
     (case cr_guild_id req of
        None \<Rightarrow> (db, Server_only)
      | Some g \<Rightarrow>
         (let tzs = resolve_tz req db g;
              tzi = parse_timezone (ce_resolves env) tzs
          in case ce_strptime env tzi (cr_due req) of
               None \<Rightarrow> (db, Invalid_due_format)
             | Some due_utc \<Rightarrow>
                (let now_utc = ce_now_utc env in
                 if due_utc \<le> now_utc + 60 then (db, Due_too_soon)
                 else (case compute_offsets (cr_custom_offsets req) now_utc due_utc of
                         Inl (ValueError m) \<Rightarrow> (db, Offset_error m)
                       | Inl (KeyError k) \<Rightarrow> (db, Command_raised (KeyError k))
                       | Inr offsets \<Rightarrow>
                          (let reminder_ts = reminder_timestamps now_utc due_utc offsets in
                           case insert_project (ce_project_ok env) g (cr_name req)
                                  (case cr_description req of None \<Rightarrow> [] | Some d \<Rightarrow> d)
                                  due_utc tzs (cr_role req) (cr_channel req) (cr_user req)
                                  (ce_created env) db of
                             (db1, Inl e) \<Rightarrow> (db1, Store_raised e)
                           | (db1, Inr pid) \<Rightarrow>
                              (let rows = map (\<lambda>ts. (pid, ts, 0,
                                                 if truthy (cr_custom_offsets req) then 1 else 0,
                                                 None)) reminder_ts
                               in case executemany_reminders (ce_reminders_fail_at env) rows db1 of
                                    (db2, Inl e) \<Rightarrow> (db2, Store_raised e)
                                  | (db2, Inr u) \<Rightarrow> (db2, Project_created pid reminder_ts)))))))"

section \<open>Adding a custom reminder\<close>

text \<open>
  The loop of \<^verbatim>\<open>project_add_reminder\<close>: one \<^verbatim>\<open>Database.execute\<close> per kept offset.
  \<open>fail_at = Some k\<close> says that the statement of index \<open>k\<close> (counting the statements
  run) raises.
\<close>

fun add_reminder_loop ::
  "nat option \<Rightarrow> int \<Rightarrow> int \<Rightarrow> int \<Rightarrow> int list \<Rightarrow> int list \<Rightarrow> database
     \<Rightarrow> database \<times> (db_error + int list)" where
  "add_reminder_loop fail_at pid due_utc now_utc [] inserted db = (db, Inr inserted)"
| "add_reminder_loop fail_at pid due_utc now_utc (off # offs) inserted db =
     (let ts = due_utc - off in
      if ts > now_utc + 30 then
        (if fail_at = Some 0 then (db, Inl DatabaseError)
         else add_reminder_loop (map_option (\<lambda>k. k - 1) fail_at) pid due_utc now_utc offs
                (inserted @ [ts]) (insert_reminder pid ts 0 1 None db))
      else add_reminder_loop fail_at pid due_utc now_utc offs inserted db)"

definition query_project :: "database \<Rightarrow> int \<Rightarrow> int option \<Rightarrow> project option" where
  "query_project db pid g =
     (case filter (\<lambda>p. p_id p = pid \<and> Some (guild_id p) = g) (projects db) of
        [] \<Rightarrow> None
      | p # ps \<Rightarrow> Some p)"

definition project_add_reminder ::
  "nat option \<Rightarrow> int \<Rightarrow> int option \<Rightarrow> int \<Rightarrow> string \<Rightarrow> database \<Rightarrow> database \<times> reply" where
  "project_add_reminder fail_at now_utc g pid offset db =
     (case query_project db pid g of
        None \<Rightarrow> (db, Project_not_found)
      | Some proj \<Rightarrow>
         (case parse_offset_str offset of
            Inl (ValueError m) \<Rightarrow> (db, Offset_error m)
          | Inl (KeyError k) \<Rightarrow> (db, Command_raised (KeyError k))
          | Inr offs \<Rightarrow>
             (case add_reminder_loop fail_at pid (due_ts proj) now_utc offs [] db of
                (db1, Inl e) \<Rightarrow> (db1, Store_raised e)
              | (db1, Inr inserted) \<Rightarrow>
                  if inserted = [] then (db1, No_valid_reminders)
                  else (db1, Reminders_added inserted))))"

section \<open>Configuring the digest\<close>

text \<open>
  \<^verbatim>\<open>datetime.strptime(time_hhmm, "%H:%M")\<close> succeeds exactly when the text is an hour
  (\<^verbatim>\<open>2[0-3]|[0-1]\d|\d\<close>), a colon and a minute (\<^verbatim>\<open>[0-5]\d|\d\<close>) with nothing left over.
\<close>

definition valid_H :: "string \<Rightarrow> bool" where
  "valid_H hs =
     (case hs of
        [a] \<Rightarrow> isdigit a
      | [a, b] \<Rightarrow> (a = CHR ''2'' \<and> b \<in> set ''0123'') \<or> (a \<in> set ''01'' \<and> isdigit b)
      | _ \<Rightarrow> False)"

definition valid_M :: "string \<Rightarrow> bool" where
  "valid_M ms =
     (case ms of
        [a] \<Rightarrow> isdigit a
      | [a, b] \<Rightarrow> a \<in> set ''012345'' \<and> isdigit b
      | _ \<Rightarrow> False)"

definition strptime_HM :: "string \<Rightarrow> (int \<times> int) option" where
  "strptime_HM s =
     (let hs = takeWhile (\<lambda>c. c \<noteq> CHR '':'') s in
      case dropWhile (\<lambda>c. c \<noteq> CHR '':'') s of
        [] \<Rightarrow> None
      | c # ms \<Rightarrow> if valid_H hs \<and> valid_M ms then Some (int_of_digits hs, int_of_digits ms) else None)"

text \<open>
  \<^verbatim>\<open>Database.upsert_config\<close> as \<^verbatim>\<open>deadlines_configure\<close> calls it, with the three keyword
  arguments \<^verbatim>\<open>deadlines_channel_id\<close>, \<^verbatim>\<open>deadlines_digest_time\<close> and \<^verbatim>\<open>timezone\<close>. A new
  row gets the column defaults for the rest.
\<close>

definition upsert_config_digest :: "int \<Rightarrow> int \<Rightarrow> string \<Rightarrow> string option \<Rightarrow> database \<Rightarrow> database" where
  "upsert_config_digest g chan time_hhmm tzs db =
     (case configs db g of
        Some row \<Rightarrow>
          db\<lparr>configs := (configs db)(g \<mapsto> row\<lparr>deadlines_channel_id := Some chan,
                                                deadlines_digest_time := Some time_hhmm,
                                                timezone := tzs\<rparr>)\<rparr>
      | None \<Rightarrow>
          db\<lparr>configs := (configs db)(g \<mapsto> \<lparr>timezone = tzs, announcer_user_id = None,
                                             announce_role_id = None, announce_channel_id = None,
                                             deadlines_channel_id = Some chan,
                                             deadlines_digest_time = Some time_hhmm\<rparr>)\<rparr>)"

text \<open>
  \<^verbatim>\<open>deadlines_configure\<close> for the guild \<open>g\<close> of the interaction. The value of
  \<^verbatim>\<open>parse_timezone(timezone)\<close> on line 257 is bound to \<^verbatim>\<open>_\<close> and not used.
\<close>

definition deadlines_configure ::
  "(string \<Rightarrow> bool) \<Rightarrow> int \<Rightarrow> int \<Rightarrow> string \<Rightarrow> string option \<Rightarrow> database \<Rightarrow> database \<times> reply" where
  "deadlines_configure resolves g chan time_hhmm tzn db =
     (case strptime_HM time_hhmm of
        None \<Rightarrow> (db, Invalid_time_format)
      | Some hm \<Rightarrow>
         (let unused = (if truthy tzn then Some (parse_timezone resolves tzn) else None);
              tzs = (if truthy tzn then tzn
                     else (case get_config db g of None \<Rightarrow> Some ''UTC'' | Some cfg \<Rightarrow> timezone cfg))
          in (upsert_config_digest g chan time_hhmm tzs db, Digest_configured)))"

section \<open>Reminder poller\<close>















section \<open>Digest poller\<close>

text \<open>
  \<^verbatim>\<open>int(text)\<close> in base ten: surrounding whitespace, an optional sign, and digits that
  may be separated by single underscores; \<open>None\<close> when it raises \<^verbatim>\<open>ValueError\<close>.
\<close>

fun int_body :: "string \<Rightarrow> bool" where
  "int_body [] = False"
| "int_body [c] = isdigit c"
| "int_body (c # d # cs) =
     (isdigit c \<and> (if d = CHR ''_'' then int_body cs else int_body (d # cs)))"

definition py_int :: "string \<Rightarrow> int option" where
  "py_int s =
     (case strip s of
        [] \<Rightarrow> None
      | c # cs \<Rightarrow>
         (let body = (if c = CHR ''+'' \<or> c = CHR ''-'' then cs else c # cs) in
          if int_body body
          then Some ((if c = CHR ''-'' then - 1 else 1)
                      * int_of_digits (filter (\<lambda>x. x \<noteq> CHR ''_'') body))
          else None))"

text \<open>Lines 325 to 328: \<^verbatim>\<open>map(int, hhmm.split(":"))\<close> unpacked into two names, else 9:00.\<close>

definition parse_hhmm :: "string \<Rightarrow> int \<times> int" where
  "parse_hhmm hhmm =
     (case map py_int (split_on CHR '':'' hhmm) of
        [Some h, Some m] \<Rightarrow> (h, m)
      | _ \<Rightarrow> (9, 0))"

text \<open>
  \<open>local_dt\<close> is what the loop reads of \<^verbatim>\<open>guild_now = now_utc.astimezone(tz)\<close>: its
  \<^verbatim>\<open>strftime('%Y-%m-%d')\<close>, hour, minute, \<^verbatim>\<open>int(guild_now.timestamp())\<close> and
  \<^verbatim>\<open>int((guild_now + timedelta(days=7)).timestamp())\<close>. The calendar and the zone data
  are not part of the program, so one run of the loop takes the conversion of its
  current instant as \<open>de_astimezone\<close>, with the guild list of the bot, the zone table,
  and the outcomes of resolving a channel and of \<^verbatim>\<open>channel.send\<close> (\<open>False\<close>: it raises).
\<close>

record local_dt =
  ld_date :: string
  ld_hour :: int
  ld_minute :: int
  ld_timestamp :: int
  ld_plus7 :: int

record digest_env =
  de_guilds :: "int list"
  de_resolves :: "string \<Rightarrow> bool"
  de_astimezone :: "tzinfo \<Rightarrow> local_dt"
  de_channel_ok :: "int \<Rightarrow> bool"
  de_send_ok :: "int \<Rightarrow> bool"

datatype digest_event = Digest_send int string "project list" | Digest_logged int

text \<open>
  The guard \<^verbatim>\<open>_digest_cache\<close> is absent (\<open>None\<close>) until the first match creates it. Its
  key \<^verbatim>\<open>f"{guild.id}:{date}"\<close> is modelled as the pair of the guild id and the date.
\<close>

type_synonym digester = "(int \<times> string) set option \<times> digest_event list"

text \<open>
  Lines 320 to 333 for one guild: the configured channel, \<^verbatim>\<open>guild_now\<close> and the guard key
  when the guild has a digest channel and the local minute is the configured one.
\<close>

definition digest_match ::
  "digest_env \<Rightarrow> database \<Rightarrow> int \<Rightarrow> (int \<times> local_dt \<times> (int \<times> string)) option" where
  "digest_match env db g =
     (case get_config db g of
        None \<Rightarrow> None
      | Some cfg \<Rightarrow>
         (case deadlines_channel_id cfg of
            None \<Rightarrow> None
          | Some chan \<Rightarrow>
             if chan = 0 then None
             else
              (let tzi = parse_timezone (de_resolves env)
                           (if truthy (timezone cfg) then timezone cfg else Some ''UTC'');
                   hhmm = (case deadlines_digest_time cfg of
                             None \<Rightarrow> ''09:00''
                           | Some t \<Rightarrow> if t = [] then ''09:00'' else t);
                   hm = parse_hhmm hhmm;
                   guild_now = de_astimezone env tzi
               in if ld_hour guild_now = fst hm \<and> ld_minute guild_now = snd hm
                  then Some (chan, guild_now, (g, ld_date guild_now))
                  else None)))"

text \<open>
  Lines 339 to 365: the \<^verbatim>\<open>try\<close> block, as the events it adds. \<open>query_upcoming\<close> is
  its query for the projects of the guild due within the next seven days; with no such
  project the block ends without sending. \<open>Digest_send\<close> records a call of
  \<^verbatim>\<open>channel.send\<close>, \<open>Digest_logged\<close> the message printed by the handler.
\<close>

definition query_upcoming :: "database \<Rightarrow> int \<Rightarrow> local_dt \<Rightarrow> project list" where
  "query_upcoming db g guild_now =
     (let start_ts = ld_timestamp guild_now;
          end_ts = ld_plus7 guild_now
      in sort_key due_ts
           (filter (\<lambda>p. guild_id p = g \<and> start_ts \<le> due_ts p \<and> due_ts p \<le> end_ts)
              (projects db)))"

definition digest_deliver ::
  "digest_env \<Rightarrow> database \<Rightarrow> int \<Rightarrow> int \<Rightarrow> local_dt \<Rightarrow> digest_event list" where
  "digest_deliver env db g chan guild_now =
     (if \<not> de_channel_ok env chan then [Digest_logged g]
      else
       (let rows = query_upcoming db g guild_now
        in if rows = [] then []
           else if de_send_ok env chan then [Digest_send g (ld_date guild_now) rows]
           else [Digest_send g (ld_date guild_now) rows, Digest_logged g]))"

definition digest_guild :: "digest_env \<Rightarrow> database \<Rightarrow> int \<Rightarrow> digester \<Rightarrow> digester" where
  "digest_guild env db g st =
     (case st of (cache, tr) \<Rightarrow>
        (case digest_match env db g of
           None \<Rightarrow> (cache, tr)
         | Some (chan, guild_now, key) \<Rightarrow>
            (let c = (case cache of None \<Rightarrow> {} | Some c0 \<Rightarrow> c0) in
             if key \<in> c then (Some c, tr)
             else (Some (insert key c), tr @ digest_deliver env db g chan guild_now))))"

definition digest_loop :: "digest_env \<Rightarrow> database \<Rightarrow> digester \<Rightarrow> digester" where
  "digest_loop env db st = fold (digest_guild env db) (de_guilds env) st"

text \<open>The runs of the digest loop during the life of the process, from a fresh guard.\<close>

fun digest_runs :: "(digest_env \<times> database) list \<Rightarrow> digester \<Rightarrow> digester" where
  "digest_runs [] st = st"
| "digest_runs ((env, db) # runs) st = digest_runs runs (digest_loop env db st)"

definition send_keys :: "digest_event list \<Rightarrow> (int \<times> string) list" where
  "send_keys tr = concat (map (\<lambda>e. case e of Digest_send g d rows \<Rightarrow> [(g, d)] | _ \<Rightarrow> []) tr)"

definition guard :: "digester \<Rightarrow> (int \<times> string) set" where
  "guard st = (case fst st of None \<Rightarrow> {} | Some c \<Rightarrow> c)"

text \<open>
  The invariant of the digest poller: no key has been sent for twice, and every key
  sent for is in the guard.
\<close>

definition digest_inv :: "digester \<Rightarrow> bool" where
  "digest_inv st = (distinct (send_keys (snd st)) \<and> set (send_keys (snd st)) \<subseteq> guard st)"

section \<open>Concrete inputs\<close>

text \<open>
  A fresh database, a request for a deadline due at epoch second 5000 made at second
  1000, and environments in which both store statements succeed, or the insertion of
  the reminders raises at its first row. They are the inputs of the closed theorems.
\<close>

definition example_db :: database where
  "example_db = \<lparr>projects = [], projects_seq = 0, reminders = [], reminders_seq = 0,
                  configs = Map.empty\<rparr>"

definition example_request :: "string option \<Rightarrow> create_request" where
  "example_request offsets =
     \<lparr>cr_guild_id = Some 1, cr_name = ''essay'', cr_due = ''1970-01-01 01:23'',
      cr_role = 2, cr_channel = 3, cr_description = None, cr_timezone = None,
      cr_custom_offsets = offsets, cr_user = 4\<rparr>"

definition example_env :: "nat option \<Rightarrow> create_env" where
  "example_env fail_at =
     \<lparr>ce_now_utc = 1000, ce_created = 1000, ce_resolves = (\<lambda>n. False),
      ce_strptime = (\<lambda>z d. Some 5000), ce_project_ok = True,
      ce_reminders_fail_at = fail_at\<rparr>"



text \<open>
  A guild whose digest is configured for 09:00 on channel 7, a run of the digest loop at
  09:00 local time on 2030-01-01 in which sending raises, and databases without and
  with a project of that guild due within the week.
\<close>

definition example_digest_db :: "project list \<Rightarrow> database" where
  "example_digest_db ps =
     \<lparr>projects = ps, projects_seq = 1, reminders = [], reminders_seq = 0,
      configs = [1 \<mapsto> \<lparr>timezone = Some ''UTC'', announcer_user_id = None,
                        announce_role_id = None, announce_channel_id = None,
                        deadlines_channel_id = Some 7,
                        deadlines_digest_time = Some ''09:00''\<rparr>]\<rparr>"

definition example_project :: project where
  "example_project =
     \<lparr>p_id = 1, guild_id = 1, name = ''essay'', description = Some [], due_ts = 5000,
      tz = ''UTC'', role_id = 2, channel_id = 3, created_by = 4, created_at = 1000\<rparr>"

definition example_digest_env :: digest_env where
  "example_digest_env =
     \<lparr>de_guilds = [1], de_resolves = (\<lambda>n. False),
      de_astimezone = (\<lambda>z. \<lparr>ld_date = ''2030-01-01'', ld_hour = 9, ld_minute = 0,
                             ld_timestamp = 4000, ld_plus7 = 4000 + 7 * 86400\<rparr>),
      de_channel_ok = (\<lambda>c. True), de_send_ok = (\<lambda>c. False)\<rparr>"

section \<open>Properties of the offset calculator\<close>

text \<open>
  Claim C3. With no explicit offsets, \<open>default_offsets now due\<close> returns exactly the
  offsets of the lead-time table, where \<open>lead = due - now\<close>: at least three days gives
  3d, 2d, 1d; two to three days gives 1d; twelve hours to two days gives 4h; four to
  twelve hours gives 2h; one to four hours gives 1h; thirty minutes to one hour gives
  30m; more than ten and less than thirty minutes gives 10m; at most ten minutes gives
  \<open>max (lead - 60) 60\<close>. In particular a lead of four days gives 3d, 2d, 1d, a lead of
  1800 gives 1800 and a lead of 300 gives 240.
\<close>

theorem default_offsets_table:
  "(due - now \<ge> 3 * 86400 \<longrightarrow> default_offsets now due = [3 * 86400, 2 * 86400, 86400])
   \<and> (2 * 86400 \<le> due - now \<and> due - now < 3 * 86400 \<longrightarrow> default_offsets now due = [86400])
   \<and> (12 * 3600 \<le> due - now \<and> due - now < 2 * 86400 \<longrightarrow> default_offsets now due = [4 * 3600])
   \<and> (4 * 3600 \<le> due - now \<and> due - now < 12 * 3600 \<longrightarrow> default_offsets now due = [2 * 3600])
   \<and> (3600 \<le> due - now \<and> due - now < 4 * 3600 \<longrightarrow> default_offsets now due = [3600])
   \<and> (30 * 60 \<le> due - now \<and> due - now < 3600 \<longrightarrow> default_offsets now due = [30 * 60])
   \<and> (10 * 60 < due - now \<and> due - now < 30 * 60 \<longrightarrow> default_offsets now due = [10 * 60])
   \<and> (due - now \<le> 10 * 60 \<longrightarrow> default_offsets now due = [max (due - now - 60) 60])
   \<and> (due - now = 4 * 86400 \<longrightarrow> default_offsets now due = [259200, 172800, 86400])
   \<and> (due - now = 1800 \<longrightarrow> default_offsets now due = [1800])
   \<and> (due - now = 300 \<longrightarrow> default_offsets now due = [240])"
  by (simp add: default_offsets_def Let_def)

theorem default_offsets_table_witness:
  "default_offsets 1000 (1000 + 4 * 86400) = [259200, 172800, 86400]
   \<and> default_offsets 1000 (1000 + 2 * 86400) = [86400]
   \<and> default_offsets 1000 (1000 + 12 * 3600) = [14400]
   \<and> default_offsets 1000 (1000 + 4 * 3600) = [7200]
   \<and> default_offsets 1000 (1000 + 3600) = [3600]
   \<and> default_offsets 1000 2800 = [1800]
   \<and> default_offsets 1000 1601 = [600]
   \<and> default_offsets 1000 1300 = [240]"
  using default_offsets_table [where now = 1000 and due = "1000 + 4 * 86400"]
    default_offsets_table [where now = 1000 and due = "1000 + 2 * 86400"]
    default_offsets_table [where now = 1000 and due = "1000 + 12 * 3600"]
    default_offsets_table [where now = 1000 and due = "1000 + 4 * 3600"]
    default_offsets_table [where now = 1000 and due = "1000 + 3600"]
    default_offsets_table [where now = 1000 and due = 2800]
    default_offsets_table [where now = 1000 and due = 1601]
    default_offsets_table [where now = 1000 and due = 1300]
  by simp

text \<open>
  Claim C9. \<open>default_offsets\<close> is total and never returns the empty list, for every
  pair of integers, also when the due instant is not after now. When the lead time is
  at most ten minutes (zero and negative leads included) the result is the single
  offset \<open>max (lead - 60) 60\<close>, which is at least 60.
\<close>

theorem default_offsets_nonempty:
  "default_offsets now due \<noteq> []
   \<and> (due - now \<le> 600 \<longrightarrow>
        default_offsets now due = [max (due - now - 60) 60] \<and> max (due - now - 60) 60 \<ge> 60)"
  by (simp add: default_offsets_def Let_def)

theorem default_offsets_nonempty_witness:
  "default_offsets 500 200 \<noteq> [] \<and> default_offsets 500 200 = [60]"
  using default_offsets_nonempty [where now = 500 and due = 200] by simp

section \<open>Properties of the duration parser\<close>






































section \<open>Properties of creating a deadline\<close>
















lemma reminder_timestamps_bounds:
  assumes "now + 60 < due" and "\<forall>off\<in>set offsets. 0 \<le> off"
    and "ts \<in> set (reminder_timestamps now due offsets)"
  shows "now + 30 < ts \<and> ts \<le> due"
  using assms by (auto simp: reminder_timestamps_def Let_def split: if_splits)

lemma reminder_timestamps_strict:
  assumes "now + 60 < due" and "\<forall>off\<in>set offsets. 0 < off"
    and "ts \<in> set (reminder_timestamps now due offsets)"
  shows "now + 30 < ts \<and> ts < due"
  using assms by (auto simp: reminder_timestamps_def Let_def split: if_splits)






text \<open>
  Claim C1 says that every stored reminder instant lies strictly between now + 30 and
  the due instant of its event, and the comment of \<^verbatim>\<open>project_create\<close> says the instants
  ``must be before due and after now''. The loops test the lower bound only. With the
  explicit offset \<^verbatim>\<open>0s\<close>, which the parser accepts, \<^verbatim>\<open>project_create\<close> and
  \<^verbatim>\<open>project_add_reminder\<close> both store a reminder at the due instant 5000 itself.
\<close>

theorem reminder_at_due_instant:
  "parse_offset_str ''0s'' = Inr [0]
   \<and> snd (project_create (example_env None) (example_request (Some ''0s'')) example_db)
        = Project_created 1 [5000]
   \<and> map due_ts (projects (fst (project_create (example_env None)
        (example_request (Some ''0s'')) example_db))) = [5000]
   \<and> map remind_ts (reminders (fst (project_create (example_env None)
        (example_request (Some ''0s'')) example_db))) = [5000]
   \<and> snd (project_add_reminder None 1000 (Some 1) 1 ''0s''
        (fst (project_create (example_env None) (example_request None) example_db)))
        = Reminders_added [5000]
   \<and> map remind_ts (reminders (fst (project_add_reminder None 1000 (Some 1) 1 ''0s''
        (fst (project_create (example_env None) (example_request None) example_db)))))
        = [1400, 5000]"
  by code_simp

section \<open>Properties of configuring the digest\<close>

lemma deadlines_configure_accepts:
  assumes "strptime_HM time_hhmm \<noteq> None" and "truthy tzn"
  shows "snd (deadlines_configure resolves g chan time_hhmm tzn db) = Digest_configured
       \<and> map_option timezone (configs (fst (deadlines_configure resolves g chan time_hhmm tzn db)) g)
           = Some tzn"
  using assms
  by (auto simp: deadlines_configure_def upsert_config_digest_def Let_def split: option.splits)

text \<open>
  Claim C6 says that configuring the digest with an unresolvable zone name fails with
  \<open>InvalidTimezone\<close>. \<^verbatim>\<open>deadlines_configure\<close> calls \<^verbatim>\<open>parse_timezone\<close> under the comment
  ``Validate tz'', but \<^verbatim>\<open>parse_timezone\<close> falls back to UTC instead of raising and its
  value is dropped: with no resolvable zone at all, the name \<^verbatim>\<open>Mars/Olympus\<close> is stored
  as given and the reply is the success message.
\<close>

theorem configure_stores_unresolvable_timezone:
  "strptime_HM ''09:00'' = Some (9, 0)
   \<and> parse_timezone (\<lambda>n. False) (Some ''Mars/Olympus'') = Utc
   \<and> snd (deadlines_configure (\<lambda>n. False) 1 7 ''09:00'' (Some ''Mars/Olympus'') example_db)
       = Digest_configured
   \<and> map_option timezone
        (configs (fst (deadlines_configure (\<lambda>n. False) 1 7 ''09:00'' (Some ''Mars/Olympus'')
           example_db)) 1) = Some (Some ''Mars/Olympus'')"
  by code_simp

section \<open>Properties of the reminder poller\<close>























section \<open>Properties of the digest poller\<close>

lemma send_keys_append: "send_keys (a @ b) = send_keys a @ send_keys b"
  by (simp add: send_keys_def)

lemma send_keys_deliver:
  "send_keys (digest_deliver env db g chan gn)
     = (if de_channel_ok env chan \<and> query_upcoming db g gn \<noteq> [] then [(g, ld_date gn)] else [])"
  by (simp add: digest_deliver_def send_keys_def Let_def)

lemma digest_match_key:
  "digest_match env db g = Some (chan, gn, key) \<Longrightarrow> key = (g, ld_date gn)"
  by (auto simp: digest_match_def Let_def split: option.splits if_splits)

lemma digest_guild_skip:
  "digest_match env db g = None \<Longrightarrow> digest_guild env db g st = st"
  by (cases st) (simp add: digest_guild_def)

lemma digest_guild_known:
  assumes "digest_match env db g = Some (chan, gn, key)" and "key \<in> guard st"
  shows "guard (digest_guild env db g st) = guard st"
    and "snd (digest_guild env db g st) = snd st"
  using assms by (cases st; auto simp: digest_guild_def guard_def Let_def split: option.splits)+

lemma digest_guild_fresh:
  assumes "digest_match env db g = Some (chan, gn, key)" and "key \<notin> guard st"
  shows "guard (digest_guild env db g st) = insert key (guard st)"
    and "snd (digest_guild env db g st) = snd st @ digest_deliver env db g chan gn"
  using assms by (cases st; auto simp: digest_guild_def guard_def Let_def split: option.splits)+

lemma digest_guild_guard_mono: "guard st \<subseteq> guard (digest_guild env db g st)"
proof (cases "digest_match env db g")
  case None
  then show ?thesis by (simp add: digest_guild_skip)
next
  case (Some m)
  obtain chan gn key where m: "m = (chan, gn, key)" by (cases m)
  show ?thesis
    using digest_guild_known(1) [OF Some [unfolded m]] digest_guild_fresh(1) [OF Some [unfolded m]]
    by (cases "key \<in> guard st") auto
qed

lemma digest_guild_guard_upper:
  "guard (digest_guild env db g st) \<subseteq> guard st \<union> {k. fst k = g}"
proof (cases "digest_match env db g")
  case None
  then show ?thesis by (simp add: digest_guild_skip)
next
  case (Some m)
  obtain chan gn key where m: "m = (chan, gn, key)" by (cases m)
  have "fst key = g" using digest_match_key [OF Some [unfolded m]] by simp
  then show ?thesis
    using digest_guild_known(1) [OF Some [unfolded m]] digest_guild_fresh(1) [OF Some [unfolded m]]
    by (cases "key \<in> guard st") auto
qed

lemma digest_guild_matched:
  "digest_match env db g = Some (chan, gn, key) \<Longrightarrow> key \<in> guard (digest_guild env db g st)"
  using digest_guild_known(1) digest_guild_fresh(1)
  by (cases "key \<in> guard st") auto

lemma digest_guild_sends:
  "\<exists>new. send_keys (snd (digest_guild env db g st)) = send_keys (snd st) @ new
       \<and> distinct new \<and> set new \<subseteq> guard (digest_guild env db g st) - guard st"
proof (cases "digest_match env db g")
  case None
  then show ?thesis by (simp add: digest_guild_skip)
next
  case (Some m)
  obtain chan gn key where m: "m = (chan, gn, key)" by (cases m)
  note mk = Some [unfolded m]
  show ?thesis
  proof (cases "key \<in> guard st")
    case True
    then show ?thesis using digest_guild_known [OF mk True] by simp
  next
    case False
    have k: "key = (g, ld_date gn)" using mk by (rule digest_match_key)
    note fr = digest_guild_fresh [OF mk False]
    show ?thesis
    proof (cases "de_channel_ok env chan \<and> query_upcoming db g gn \<noteq> []")
      case True
      then have "send_keys (snd (digest_guild env db g st)) = send_keys (snd st) @ [key]"
        by (simp add: fr(2) send_keys_append send_keys_deliver k)
      moreover have "set [key] \<subseteq> guard (digest_guild env db g st) - guard st"
        using fr(1) False by simp
      ultimately show ?thesis by (metis distinct_singleton)
    next
      case nosend: False
      then have "send_keys (snd (digest_guild env db g st)) = send_keys (snd st) @ []"
        by (simp add: fr(2) send_keys_append send_keys_deliver)
      then show ?thesis by (metis distinct.simps(1) empty_set empty_subsetI)
    qed
  qed
qed

lemma digest_guild_inv: "digest_inv st \<Longrightarrow> digest_inv (digest_guild env db g st)"
proof -
  assume inv: "digest_inv st"
  obtain new where n: "send_keys (snd (digest_guild env db g st)) = send_keys (snd st) @ new"
    "distinct new" "set new \<subseteq> guard (digest_guild env db g st) - guard st"
    using digest_guild_sends by blast
  have "set (send_keys (snd st)) \<inter> set new = {}"
    using inv n(3) by (auto simp: digest_inv_def)
  then show ?thesis
    using inv n digest_guild_guard_mono [of st env db g]
    by (auto simp: digest_inv_def)
qed

lemma fold_guild_inv: "digest_inv st \<Longrightarrow> digest_inv (fold (digest_guild env db) gs st)"
  by (induction gs arbitrary: st) (simp_all add: digest_guild_inv)

lemma digest_loop_inv: "digest_inv st \<Longrightarrow> digest_inv (digest_loop env db st)"
  by (simp add: digest_loop_def fold_guild_inv)

lemma digest_runs_inv: "digest_inv st \<Longrightarrow> digest_inv (digest_runs runs st)"
proof (induction runs arbitrary: st)
  case Nil
  then show ?case by simp
next
  case (Cons run runs)
  obtain env db where run: "run = (env, db)" by (cases run)
  have "digest_inv (digest_loop env db st)" using Cons.prems by (rule digest_loop_inv)
  then show ?case using Cons.IH by (simp add: run)
qed

lemma digest_inv_init: "digest_inv (None, [])"
  by (simp add: digest_inv_def send_keys_def guard_def)

lemma fold_guild_guard_mono: "guard st \<subseteq> guard (fold (digest_guild env db) gs st)"
proof (induction gs arbitrary: st)
  case Nil
  then show ?case by simp
next
  case (Cons g gs)
  show ?case using digest_guild_guard_mono [of st env db g] Cons [of "digest_guild env db g st"]
    by auto
qed

lemma digest_guild_keys_mono:
  "set (send_keys (snd st)) \<subseteq> set (send_keys (snd (digest_guild env db g st)))"
  using digest_guild_sends [of env db g st] by auto

lemma fold_guild_keys_mono:
  "set (send_keys (snd st)) \<subseteq> set (send_keys (snd (fold (digest_guild env db) gs st)))"
proof (induction gs arbitrary: st)
  case Nil
  then show ?case by simp
next
  case (Cons g gs)
  show ?case using digest_guild_keys_mono [of st env db g] Cons [of "digest_guild env db g st"]
    by auto
qed

lemma fold_guild_matched:
  assumes "digest_match env db g = Some (chan, gn, key)" and "g \<in> set gs"
  shows "key \<in> guard (fold (digest_guild env db) gs st)"
  using assms(2)
proof (induction gs arbitrary: st)
  case Nil
  then show ?case by simp
next
  case (Cons h gs)
  show ?case
  proof (cases "h = g")
    case True
    have "key \<in> guard (digest_guild env db g st)" using assms(1) by (rule digest_guild_matched)
    then show ?thesis using fold_guild_guard_mono True by fastforce
  next
    case False
    then show ?thesis using Cons by simp
  qed
qed

lemma fold_guild_sent:
  assumes m: "digest_match env db g = Some (chan, gn, key)"
    and ok: "de_channel_ok env chan" "query_upcoming db g gn \<noteq> []"
  shows "g \<in> set gs \<Longrightarrow> key \<notin> guard st
           \<Longrightarrow> key \<in> set (send_keys (snd (fold (digest_guild env db) gs st)))"
proof (induction gs arbitrary: st)
  case Nil
  then show ?case by simp
next
  case (Cons h gs)
  have k: "key = (g, ld_date gn)" using m by (rule digest_match_key)
  show ?case
  proof (cases "h = g")
    case True
    have "key \<in> set (send_keys (snd (digest_guild env db g st)))"
      using digest_guild_fresh(2) [OF m Cons.prems(2)] ok
      by (simp add: send_keys_append send_keys_deliver k)
    then show ?thesis using fold_guild_keys_mono True by fastforce
  next
    case False
    have "key \<notin> guard (digest_guild env db h st)"
      using digest_guild_guard_upper [of env db h st] Cons.prems(2) False k by auto
    then show ?thesis using Cons False by simp
  qed
qed

lemma fold_guild_quiet:
  assumes "key \<in> guard st"
  shows "count_list (send_keys (snd (fold (digest_guild env db) gs st))) key
           = count_list (send_keys (snd st)) key"
  using assms
proof (induction gs arbitrary: st)
  case Nil
  then show ?case by simp
next
  case (Cons h gs)
  obtain new where n: "send_keys (snd (digest_guild env db h st)) = send_keys (snd st) @ new"
    "set new \<subseteq> guard (digest_guild env db h st) - guard st"
    using digest_guild_sends by blast
  have "key \<notin> set new" using n(2) Cons.prems by auto
  then have c: "count_list (send_keys (snd (digest_guild env db h st))) key
                 = count_list (send_keys (snd st)) key"
    by (simp add: n(1) count_list_0_iff)
  have "key \<in> guard (digest_guild env db h st)"
    using Cons.prems digest_guild_guard_mono by blast
  then show ?case using Cons.IH c by simp
qed

lemma fold_guild_unsent:
  assumes "\<And>chan gn k. digest_match env db g = Some (chan, gn, k)
             \<Longrightarrow> \<not> (de_channel_ok env chan \<and> query_upcoming db g gn \<noteq> [])"
    and "fst key = g"
  shows "count_list (send_keys (snd (fold (digest_guild env db) gs st))) key
           = count_list (send_keys (snd st)) key"
proof (induction gs arbitrary: st)
  case Nil
  then show ?case by simp
next
  case (Cons h gs)
  have "send_keys (snd (digest_guild env db h st)) = send_keys (snd st)
        \<or> (\<exists>d. send_keys (snd (digest_guild env db h st)) = send_keys (snd st) @ [(h, d)]
               \<and> (h \<noteq> g))"
  proof (cases "digest_match env db h")
    case None
    then show ?thesis by (simp add: digest_guild_skip)
  next
    case (Some mm)
    obtain chan gn k where mm: "mm = (chan, gn, k)" by (cases mm)
    note mk = Some [unfolded mm]
    show ?thesis
    proof (cases "k \<in> guard st")
      case True
      then show ?thesis using digest_guild_known [OF mk True] by simp
    next
      case False
      show ?thesis
        using digest_guild_fresh(2) [OF mk False] assms(1) [of chan gn k] mk
        by (cases "h = g") (auto simp: send_keys_append send_keys_deliver)
    qed
  qed
  then have "count_list (send_keys (snd (digest_guild env db h st))) key
                 = count_list (send_keys (snd st)) key"
    using assms(2) by auto
  then show ?case using Cons.IH by simp
qed

lemma distinct_count_le_one: "distinct xs \<Longrightarrow> count_list xs k \<le> 1"
  by (induction xs) (auto simp: count_list_0_iff)

lemma digest_loop_guard_mono: "guard st \<subseteq> guard (digest_loop env db st)"
  by (simp add: digest_loop_def fold_guild_guard_mono)

lemma digest_runs_guard_mono: "guard st \<subseteq> guard (digest_runs runs st)"
proof (induction runs arbitrary: st)
  case Nil
  then show ?case by simp
next
  case (Cons run runs)
  obtain env db where run: "run = (env, db)" by (cases run)
  show ?case
    using digest_loop_guard_mono [of st env db] Cons [of "digest_loop env db st"]
    by (auto simp: run)
qed

lemma digest_twice:
  assumes "st0 = digest_runs runs (None, [])"
    and "g \<in> set (de_guilds env1)"
    and "digest_match env1 db1 g = Some (chan1, gn1, key)"
    and "digest_match env2 db2 g = Some (chan2, gn2, key)"
    and "st1 = digest_loop env1 db1 st0" and "st2 = digest_loop env2 db2 st1"
  shows "count_list (send_keys (snd st2)) key \<le> 1
       \<and> count_list (send_keys (snd st2)) key = count_list (send_keys (snd st1)) key
       \<and> key \<in> guard st1 \<and> key \<in> guard st2 \<and> key \<in> guard (digest_runs later st2)
       \<and> (key \<notin> guard st0 \<and> de_channel_ok env1 chan1 \<and> query_upcoming db1 g gn1 \<noteq> []
            \<longrightarrow> count_list (send_keys (snd st2)) key = 1)
       \<and> (query_upcoming db1 g gn1 = []
            \<longrightarrow> count_list (send_keys (snd st2)) key = count_list (send_keys (snd st0)) key)
       \<and> distinct (send_keys (snd (digest_runs later st2)))"
proof -
  have i0: "digest_inv st0" unfolding assms(1) using digest_inv_init by (rule digest_runs_inv)
  have i1: "digest_inv st1" unfolding assms(5) using i0 by (rule digest_loop_inv)
  have i2: "digest_inv st2" unfolding assms(6) using i1 by (rule digest_loop_inv)
  have i3: "digest_inv (digest_runs later st2)" using i2 by (rule digest_runs_inv)
  have g1: "key \<in> guard st1"
    unfolding assms(5) digest_loop_def using assms(3,2) by (rule fold_guild_matched)
  have g2: "key \<in> guard st2"
    using g1 digest_loop_guard_mono unfolding assms(6) by blast
  have g3: "key \<in> guard (digest_runs later st2)"
    using g2 digest_runs_guard_mono by blast
  have same: "count_list (send_keys (snd st2)) key = count_list (send_keys (snd st1)) key"
    unfolding assms(6) digest_loop_def using g1 by (rule fold_guild_quiet)
  have "distinct (send_keys (snd st2))" using i2 by (simp add: digest_inv_def)
  then have le: "count_list (send_keys (snd st2)) key \<le> 1"
    by (rule distinct_count_le_one)
  have one: "count_list (send_keys (snd st2)) key = 1"
    if "key \<notin> guard st0" "de_channel_ok env1 chan1" "query_upcoming db1 g gn1 \<noteq> []"
  proof -
    have "key \<in> set (send_keys (snd st1))"
      unfolding assms(5) digest_loop_def
      using assms(3) that(2,3) assms(2) that(1) by (rule fold_guild_sent)
    then have "count_list (send_keys (snd st1)) key \<noteq> 0" by (simp add: count_list_0_iff)
    then show ?thesis using same le by simp
  qed
  have none: "count_list (send_keys (snd st2)) key = count_list (send_keys (snd st0)) key"
    if "query_upcoming db1 g gn1 = []"
  proof -
    have k: "fst key = g" using digest_match_key [OF assms(3)] by simp
    have "count_list (send_keys (snd st1)) key = count_list (send_keys (snd st0)) key"
      unfolding assms(5) digest_loop_def
      by (rule fold_guild_unsent [OF _ k]) (simp add: assms(3) that)
    then show ?thesis using same by simp
  qed
  show ?thesis
    using le same g1 g2 g3 one none i3 by (simp add: digest_inv_def)
qed

text \<open>
  Claim C4, as amended. Let the digest loop run twice, in any state the process can
  reach, and let the guild \<open>g\<close> match its configured minute with the same guard key
  (guild, local date) both times. Then at most one delivery is attempted for that key
  over the whole life so far and the second run attempts none. The key is in the guard
  after the first run and stays there through every later run, whether the channel
  resolved and the send succeeded or not. The count is exactly one when the key was
  not yet in the guard, the channel resolves and at least one project of the guild is
  due within the week; when no project is due, the first run attempts no delivery
  either. Over any further runs no key is ever sent for twice.
\<close>

theorem digest_once_per_day:
  assumes "st0 = digest_runs runs (None, [])"
    and "g \<in> set (de_guilds env1)"
    and "digest_match env1 db1 g = Some (chan1, gn1, key)"
    and "digest_match env2 db2 g = Some (chan2, gn2, key)"
    and "st1 = digest_loop env1 db1 st0" and "st2 = digest_loop env2 db2 st1"
  shows "count_list (send_keys (snd st2)) key \<le> 1
       \<and> count_list (send_keys (snd st2)) key = count_list (send_keys (snd st1)) key
       \<and> key \<in> guard st1 \<and> key \<in> guard st2 \<and> key \<in> guard (digest_runs later st2)
       \<and> (key \<notin> guard st0 \<and> de_channel_ok env1 chan1 \<and> query_upcoming db1 g gn1 \<noteq> []
            \<longrightarrow> count_list (send_keys (snd st2)) key = 1)
       \<and> (query_upcoming db1 g gn1 = []
            \<longrightarrow> count_list (send_keys (snd st2)) key = count_list (send_keys (snd st0)) key)
       \<and> distinct (send_keys (snd (digest_runs later st2)))"
  using assms by (rule digest_twice)

theorem digest_once_per_day_witness:
  "1 \<in> set (de_guilds example_digest_env)
   \<and> map_option (\<lambda>m. snd (snd m))
        (digest_match example_digest_env (example_digest_db [example_project]) 1)
       = Some (1, ''2030-01-01'')
   \<and> (1, ''2030-01-01'') \<notin> guard (None, [])
   \<and> query_upcoming (example_digest_db [example_project]) 1
        (de_astimezone example_digest_env Utc) = [example_project]
   \<and> snd (digest_loop example_digest_env (example_digest_db [example_project])
        (digest_loop example_digest_env (example_digest_db [example_project]) (None, [])))
       = [Digest_send 1 ''2030-01-01'' [example_project], Digest_logged 1]
   \<and> count_list (send_keys (snd (digest_loop example_digest_env
        (example_digest_db [example_project])
        (digest_loop example_digest_env (example_digest_db [example_project]) (None, [])))))
        (1, ''2030-01-01'') = 1
   \<and> (1, ''2030-01-01'') \<in> guard (digest_loop example_digest_env
        (example_digest_db [example_project])
        (digest_loop example_digest_env (example_digest_db [example_project]) (None, [])))"
proof -
  let ?e = example_digest_env
  let ?d = "example_digest_db [example_project]"
  let ?gn = "de_astimezone example_digest_env Utc"
  have h1: "(None, []) = digest_runs [] (None, [])" by simp
  have h2: "1 \<in> set (de_guilds ?e)" by (simp add: example_digest_env_def)
  have h3: "digest_match ?e ?d 1 = Some (7, ?gn, (1, ''2030-01-01''))" by code_simp
  have m: "map_option (\<lambda>m. snd (snd m)) (digest_match ?e ?d 1) = Some (1, ''2030-01-01'')"
    by (simp add: h3)
  have f: "(1, ''2030-01-01'') \<notin> guard (None, [])" by (simp add: guard_def)
  have c: "de_channel_ok ?e 7" by (simp add: example_digest_env_def)
  have q: "query_upcoming ?d 1 ?gn = [example_project]" by code_simp
  have tr: "snd (digest_loop ?e ?d (digest_loop ?e ?d (None, [])))
       = [Digest_send 1 ''2030-01-01'' [example_project], Digest_logged 1]"
    by code_simp
  note th = digest_once_per_day [OF h1 h2 h3 h3 refl refl, of "[]"]
  show ?thesis using th h2 m f c q tr by simp
qed

text \<open>
  The claim as first worded says that two runs in the same matching minute attempt
  exactly one delivery. With no project due within the week the loop posts nothing:
  after two runs the trace is empty and the count of deliveries for the key is 0.
\<close>

theorem digest_silent_without_projects:
  "map_option (\<lambda>m. snd (snd m)) (digest_match example_digest_env (example_digest_db []) 1)
       = Some (1, ''2030-01-01'')
   \<and> query_upcoming (example_digest_db []) 1 (de_astimezone example_digest_env Utc) = []
   \<and> snd (digest_loop example_digest_env (example_digest_db [])
        (digest_loop example_digest_env (example_digest_db []) (None, []))) = []
   \<and> count_list (send_keys (snd (digest_loop example_digest_env (example_digest_db [])
        (digest_loop example_digest_env (example_digest_db []) (None, [])))))
        (1, ''2030-01-01'') = 0"
  by code_simp

end
